theory Spec2Isabelle
  imports Main "HOL-Library.Sublist"
begin

text \<open>
  A model of the workspace service: the registry of workspaces kept in SQLite
  (\<open>database.js\<close>), the API routes of the workspaces server that create, fetch, start and
  stop a workspace (\<open>server.js\<close>), and the OAuth routes, both the shared ones
  (\<open>auth-common.js\<close>) and the workspaces server's own. Every function of the sources is a
  function here under its own name, taking the state it reads and returning the state it
  leaves; what a function throws is a value of its result.
\<close>

section \<open>The workspace registry (database.js)\<close>

text \<open>
  The registry is one SQLite connection holding the tables \<open>users\<close> and \<open>workspaces\<close>.
  A row of \<open>workspaces\<close> has the columns of the \<open>CREATE TABLE\<close> statement:
  \<^verbatim>\<open>
    id INTEGER PRIMARY KEY AUTOINCREMENT, user_id TEXT, name TEXT NOT NULL,
    repo_url TEXT NOT NULL, container_id TEXT, status TEXT DEFAULT 'stopped',
    devcontainer_build_status TEXT DEFAULT NULL,
    created_at DATETIME DEFAULT CURRENT_TIMESTAMP, updated_at DATETIME DEFAULT CURRENT_TIMESTAMP,
    FOREIGN KEY (user_id) REFERENCES users(id), UNIQUE(name)
  \<close>
  A nullable column is an \<open>option\<close> (\<open>None\<close> is SQL \<open>NULL\<close>), \<open>TEXT\<close> is a string, and a
  timestamp is the reading of the clock, a natural number.
\<close>

record workspace =
  ws_id :: nat
  user_id :: "string option"
  name :: string
  repo_url :: string
  container_id :: "string option"
  status :: "string option"
  devcontainer_build_status :: "string option"
  created_at :: nat
  updated_at :: nat

text \<open>
  The connection: the ids of the rows of \<open>users\<close> (the only column of that table the
  workspace statements depend on), the rows of \<open>workspaces\<close> in insertion order, the
  \<open>AUTOINCREMENT\<close> counter of \<open>workspaces\<close>, and whether the connection enforces foreign keys
  (\<open>PRAGMA foreign_keys\<close>, which the source leaves at the driver's default).
\<close>

record database =
  users :: "string list"
  workspaces :: "workspace list"
  sqlite_sequence :: nat
  foreign_keys :: bool

datatype sqlite_error = SQLITE_CONSTRAINT_UNIQUE | SQLITE_CONSTRAINT_FOREIGNKEY

text \<open>
  \<open>UPDATE workspaces SET ... WHERE ...\<close>: every row that satisfies the condition is
  rewritten, the others are kept, and the statement reports the number of rows it changed
  (the \<open>changes\<close> field of the object \<open>stmt.run\<close> returns).
\<close>

definition update_where ::
  "(workspace \<Rightarrow> bool) \<Rightarrow> (workspace \<Rightarrow> workspace) \<Rightarrow> database \<Rightarrow> database \<times> nat" where
  "update_where cond upd db =
     (db\<lparr>workspaces := map (\<lambda>r. if cond r then upd r else r) (workspaces db)\<rparr>,
      length (filter cond (workspaces db)))"

text \<open>\<open>SELECT * FROM workspaces WHERE id = ?\<close>; \<open>stmt.get\<close> gives the row or \<open>undefined\<close>.\<close>

definition getWorkspace :: "database \<Rightarrow> nat \<Rightarrow> workspace option" where
  "getWorkspace db i = find (\<lambda>r. ws_id r = i) (workspaces db)"

text \<open>
  The foreign key of \<open>user_id\<close>: \<open>NULL\<close> always passes; a user id passes when the connection
  does not enforce foreign keys or the id is the id of a row of \<open>users\<close>.
\<close>

definition fk_ok :: "database \<Rightarrow> string option \<Rightarrow> bool" where
  "fk_ok db userId =
     (case userId of None \<Rightarrow> True
      | Some u \<Rightarrow> \<not> foreign_keys db \<or> u \<in> set (users db))"

text \<open>
  \<open>createWorkspace(workspace)\<close>:
  \<^verbatim>\<open>INSERT INTO workspaces (user_id, name, repo_url, container_id, status) VALUES (?, ?, ?, ?, ?)\<close>
  bound to \<open>workspace.userId\<close>, \<open>.name\<close>, \<open>.repoUrl\<close>, \<open>.containerId\<close>, \<open>.status\<close>, and the
  function returns \<open>result.lastInsertRowid\<close>. The five columns are given explicitly, so the
  column default \<open>'stopped'\<close> is never used. \<open>UNIQUE(name)\<close> and the foreign key make the
  statement throw, and then nothing is written. \<open>AUTOINCREMENT\<close> gives the new row an id one
  above every id the table has held. The \<open>NOT NULL\<close> columns take strings.
\<close>

definition createWorkspace ::
  "database \<Rightarrow> string option \<Rightarrow> string \<Rightarrow> string \<Rightarrow> string option \<Rightarrow> string option \<Rightarrow> nat
     \<Rightarrow> sqlite_error + database \<times> nat" where
  "createWorkspace db userId nm repoUrl containerId st now =
     (if \<exists>r\<in>set (workspaces db). name r = nm then Inl SQLITE_CONSTRAINT_UNIQUE
      else if \<not> fk_ok db userId then Inl SQLITE_CONSTRAINT_FOREIGNKEY
      else
        let i = Suc (fold max (map ws_id (workspaces db)) (sqlite_sequence db)) in
        Inr (db\<lparr>workspaces := workspaces db @
                  [\<lparr>ws_id = i, user_id = userId, name = nm, repo_url = repoUrl,
                    container_id = containerId, status = st,
                    devcontainer_build_status = None, created_at = now, updated_at = now\<rparr>],
                sqlite_sequence := i\<rparr>, i))"

text \<open>
  \<open>updateWorkspaceStatus(id, status, expectedStatus = null)\<close>: with an expected status,
  \<^verbatim>\<open>UPDATE workspaces SET status = ?, updated_at = CURRENT_TIMESTAMP WHERE id = ? AND status = ?\<close>
  and without one the same statement with \<open>WHERE id = ?\<close> alone.
\<close>

definition updateWorkspaceStatus ::
  "database \<Rightarrow> nat \<Rightarrow> string \<Rightarrow> string option \<Rightarrow> nat \<Rightarrow> database \<times> nat" where
  "updateWorkspaceStatus db i st expectedStatus now =
     (case expectedStatus of
        Some e \<Rightarrow>
          update_where (\<lambda>r. ws_id r = i \<and> status r = Some e)
            (\<lambda>r. r\<lparr>status := Some st, updated_at := now\<rparr>) db
      | None \<Rightarrow>
          update_where (\<lambda>r. ws_id r = i)
            (\<lambda>r. r\<lparr>status := Some st, updated_at := now\<rparr>) db)"

text \<open>
  \<open>updateWorkspaceContainer(id, containerId, status, expectedStatus = null)\<close>: as above, and
  \<open>container_id\<close> is set in the same statement.
\<close>

definition updateWorkspaceContainer ::
  "database \<Rightarrow> nat \<Rightarrow> string option \<Rightarrow> string \<Rightarrow> string option \<Rightarrow> nat \<Rightarrow> database \<times> nat" where
  "updateWorkspaceContainer db i containerId st expectedStatus now =
     (case expectedStatus of
        Some e \<Rightarrow>
          update_where (\<lambda>r. ws_id r = i \<and> status r = Some e)
            (\<lambda>r. r\<lparr>container_id := containerId, status := Some st, updated_at := now\<rparr>) db
      | None \<Rightarrow>
          update_where (\<lambda>r. ws_id r = i)
            (\<lambda>r. r\<lparr>container_id := containerId, status := Some st, updated_at := now\<rparr>) db)"

text \<open>
  \<open>releaseWorkspace(id, expectedUserId, expectedStatus)\<close>:
  \<^verbatim>\<open>UPDATE workspaces SET user_id = NULL, updated_at = CURRENT_TIMESTAMP
    WHERE id = ? AND user_id = ? AND status = ?\<close>
  The arguments are a user id and a status text; \<open>now\<close> is \<open>CURRENT_TIMESTAMP\<close>.
\<close>

definition releaseWorkspace ::
  "database \<Rightarrow> nat \<Rightarrow> string \<Rightarrow> string \<Rightarrow> nat \<Rightarrow> database \<times> nat" where
  "releaseWorkspace db i expectedUserId expectedStatus now =
     update_where
       (\<lambda>r. ws_id r = i \<and> user_id r = Some expectedUserId \<and> status r = Some expectedStatus)
       (\<lambda>r. r\<lparr>user_id := None, updated_at := now\<rparr>) db"

text \<open>
  \<open>acquireWorkspace(id, userId, expectedStatus)\<close>:
  \<^verbatim>\<open>UPDATE workspaces SET user_id = ?, updated_at = CURRENT_TIMESTAMP
    WHERE id = ? AND user_id IS NULL AND status = ?\<close>
  The statement writes \<open>user_id\<close>, so a row it would change is checked against the foreign
  key; when no row satisfies the condition nothing is checked and nothing is written.
  The arguments are a user id and a status text.
\<close>

definition acquireWorkspace ::
  "database \<Rightarrow> nat \<Rightarrow> string \<Rightarrow> string \<Rightarrow> nat \<Rightarrow> sqlite_error + database \<times> nat" where
  "acquireWorkspace db i userId expectedStatus now =
     (let cond = (\<lambda>r. ws_id r = i \<and> user_id r = None \<and> status r = Some expectedStatus) in
      if (\<exists>r\<in>set (workspaces db). cond r) \<and> \<not> fk_ok db (Some userId)
      then Inl SQLITE_CONSTRAINT_FOREIGNKEY
      else Inr (update_where cond (\<lambda>r. r\<lparr>user_id := Some userId, updated_at := now\<rparr>) db))"

text \<open>
  Calls of \<open>acquireWorkspace\<close> on one workspace by several users. Every call is one
  synchronous statement on the one connection, so calls made at the same time take effect
  one after another in some order; the list is that order, each entry the caller's user id
  and the clock at its statement. The result lists what each call returned (the number of
  rows it changed, or the error it threw) and gives the table after the last call.
\<close>

fun acquire_calls ::
  "database \<Rightarrow> nat \<Rightarrow> string \<Rightarrow> (string \<times> nat) list \<Rightarrow> (sqlite_error + nat) list \<times> database" where
  "acquire_calls db i expectedStatus [] = ([], db)"
| "acquire_calls db i expectedStatus ((userId, now) # calls) =
     (case acquireWorkspace db i userId expectedStatus now of
        Inl e \<Rightarrow>
          (let (outs, db'') = acquire_calls db i expectedStatus calls in (Inl e # outs, db''))
      | Inr (db', n) \<Rightarrow>
          (let (outs, db'') = acquire_calls db' i expectedStatus calls in (Inr n # outs, db'')))"

section \<open>The workspaces server (server.js): API routes\<close>

text \<open>
  An awaited call into the container runtime (\<open>workspaceManager\<close>, of
  \<open>workspace-manager.js\<close>, which is not among the sources modelled here) either resolves
  with a value or rejects with an error, of which the handlers read \<open>error.message\<close>. The
  runtime is a collaborator that is handed a container id or the data of a new
  workspace: its outcome is an argument of the handler that awaits it, and the call itself
  leaves the table of workspaces alone.
\<close>

datatype 'a outcome = Resolved 'a | Rejected string

text \<open>The runtime calls a handler makes, with the container id it passes.\<close>

datatype runtime_call =
    CreateWorkspace string string
  | StartWorkspace "string option"
  | StopWorkspace "string option"

text \<open>
  The JSON bodies the routes send: \<open>{error: message}\<close>, the body of the 401 reply,
  \<open>{success: true}\<close>, a row of \<open>workspaces\<close>, and the object the runtime returned for a
  new workspace (of which the model keeps \<open>containerId\<close>).
\<close>

datatype body =
    Error_body string
  | Unauthorized_body
  | Success_body
  | Workspace_body workspace
  | Created_body "string option"

datatype response = Response nat body

fun code :: "response \<Rightarrow> nat" where
  "code (Response n b) = n"

text \<open>
  \<open>passport.deserializeUser\<close>: the session stores the user id, and \<open>req.user\<close> is the row
  \<open>db.getUserById\<close> finds for it; when there is none the request is not authenticated.
  A user is identified by the id; the other profile columns play no role in the routes
  below.
\<close>

definition deserializeUser :: "database \<Rightarrow> string option \<Rightarrow> string option" where
  "deserializeUser db sessionUser =
     (case sessionUser of None \<Rightarrow> None
      | Some u \<Rightarrow> if u \<in> set (users db) then Some u else None)"

text \<open>\<open>ensureAuthenticatedAPI\<close> replies 401 unless \<open>req.isAuthenticated()\<close>.\<close>

definition unauthorized :: response where
  "unauthorized = Response 401 Unauthorized_body"

definition not_found :: response where
  "not_found = Response 404 (Error_body ''Workspace not found'')"

text \<open>
  \<open>GET /api/workspaces/:id\<close>. The path parameter is compared with the \<open>INTEGER\<close> column
  \<open>id\<close>; it is modelled by the number it denotes. The guard is
  \<open>!workspace || workspace.user_id !== req.user.id\<close>.
\<close>

definition get_workspace :: "database \<Rightarrow> string option \<Rightarrow> nat \<Rightarrow> response" where
  "get_workspace db sessionUser i =
     (case deserializeUser db sessionUser of
        None \<Rightarrow> unauthorized
      | Some uid \<Rightarrow>
          (case getWorkspace db i of
             None \<Rightarrow> not_found
           | Some w \<Rightarrow> if user_id w \<noteq> Some uid then not_found else Response 200 (Workspace_body w)))"

text \<open>
  \<open>POST /api/workspaces/:id/start\<close>: after the same guard, the handler awaits
  \<open>workspaceManager.startWorkspace(workspace.container_id)\<close> and then calls
  \<open>db.updateWorkspaceStatus(req.params.id, 'running')\<close>, with no expected status; a
  rejection is caught and answered with 500 and the error's message. A handler is run to
  its end before the next request is taken up.
\<close>

definition post_workspace_start ::
  "database \<Rightarrow> string option \<Rightarrow> nat \<Rightarrow> unit outcome \<Rightarrow> nat
     \<Rightarrow> database \<times> response \<times> runtime_call list" where
  "post_workspace_start db sessionUser i runtime now =
     (case deserializeUser db sessionUser of
        None \<Rightarrow> (db, unauthorized, [])
      | Some uid \<Rightarrow>
          (case getWorkspace db i of
             None \<Rightarrow> (db, not_found, [])
           | Some w \<Rightarrow>
               if user_id w \<noteq> Some uid then (db, not_found, [])
               else
                 (case runtime of
                    Rejected msg \<Rightarrow>
                      (db, Response 500 (Error_body msg), [StartWorkspace (container_id w)])
                  | Resolved _ \<Rightarrow>
                      (fst (updateWorkspaceStatus db i ''running'' None now),
                       Response 200 Success_body, [StartWorkspace (container_id w)]))))"

text \<open>
  \<open>POST /api/workspaces/:id/stop\<close>: the same with \<open>workspaceManager.stopWorkspace\<close> and
  \<open>db.updateWorkspaceStatus(req.params.id, 'stopped')\<close>.
\<close>

definition post_workspace_stop ::
  "database \<Rightarrow> string option \<Rightarrow> nat \<Rightarrow> unit outcome \<Rightarrow> nat
     \<Rightarrow> database \<times> response \<times> runtime_call list" where
  "post_workspace_stop db sessionUser i runtime now =
     (case deserializeUser db sessionUser of
        None \<Rightarrow> (db, unauthorized, [])
      | Some uid \<Rightarrow>
          (case getWorkspace db i of
             None \<Rightarrow> (db, not_found, [])
           | Some w \<Rightarrow>
               if user_id w \<noteq> Some uid then (db, not_found, [])
               else
                 (case runtime of
                    Rejected msg \<Rightarrow>
                      (db, Response 500 (Error_body msg), [StopWorkspace (container_id w)])
                  | Resolved _ \<Rightarrow>
                      (fst (updateWorkspaceStatus db i ''stopped'' None now),
                       Response 200 Success_body, [StopWorkspace (container_id w)]))))"

text \<open>The name check of the create route, \<open>/^[a-zA-Z0-9_-]+$/.test(name)\<close>.\<close>

definition valid_name :: "string \<Rightarrow> bool" where
  "valid_name nm =
     (nm \<noteq> [] \<and>
      (\<forall>c\<in>set nm. c \<in> set
         ''abcdefghijklmnopqrstuvwxyzABCDEFGHIJKLMNOPQRSTUVWXYZ0123456789_-''))"

text \<open>The message of the error a failed statement throws.\<close>

fun message :: "sqlite_error \<Rightarrow> string" where
  "message SQLITE_CONSTRAINT_UNIQUE = ''UNIQUE constraint failed: workspaces.name''"
| "message SQLITE_CONSTRAINT_FOREIGNKEY = ''FOREIGN KEY constraint failed''"

text \<open>
  \<open>POST /api/workspaces\<close>. The body fields \<open>name\<close> and \<open>repoUrl\<close> are strings or absent
  (\<open>None\<close>); \<open>!name\<close> holds of an absent and of an empty string. The handler first awaits
  \<open>workspaceManager.createWorkspace(req.user.username, name, repoUrl, envVars || {})\<close>, which
  resolves with an object whose \<open>containerId\<close> is a string or null, then calls
  \<open>db.createWorkspace\<close> with \<open>userId: req.user.id\<close>, that \<open>containerId\<close> and
  \<open>status: 'running'\<close>, and sends the runtime's object. Any throw inside is answered with
  500 and the error's message.
\<close>

definition post_workspaces ::
  "database \<Rightarrow> string option \<Rightarrow> string option \<Rightarrow> string option \<Rightarrow> string option outcome \<Rightarrow> nat
     \<Rightarrow> database \<times> response \<times> runtime_call list" where
  "post_workspaces db sessionUser body_name body_repoUrl runtime now =
     (case deserializeUser db sessionUser of
        None \<Rightarrow> (db, unauthorized, [])
      | Some uid \<Rightarrow>
          (case (body_name, body_repoUrl) of
             (Some nm, Some repoUrl) \<Rightarrow>
               if nm = [] \<or> repoUrl = [] then
                 (db, Response 400 (Error_body ''Name and repository URL are required''), [])
               else if \<not> valid_name nm then
                 (db, Response 400 (Error_body
                   ''Invalid workspace name. Use only alphanumeric characters, hyphens, and underscores.''),
                  [])
               else
                 (case runtime of
                    Rejected msg \<Rightarrow>
                      (db, Response 500 (Error_body msg), [CreateWorkspace nm repoUrl])
                  | Resolved containerId \<Rightarrow>
                      (case createWorkspace db (Some uid) nm repoUrl containerId
                              (Some ''running'') now of
                         Inl e \<Rightarrow>
                           (db, Response 500 (Error_body (message e)),
                            [CreateWorkspace nm repoUrl])
                       | Inr (db', rowid) \<Rightarrow>
                           (db', Response 200 (Created_body containerId),
                            [CreateWorkspace nm repoUrl])))
           | _ \<Rightarrow> (db, Response 400 (Error_body ''Name and repository URL are required''), [])))"

text \<open>
  A run of the server: the create, start and stop requests it is sent, each with the
  session's user, the outcome of the runtime call the handler may await, and the clock.
\<close>

datatype api_request =
    Post_workspaces "string option" "string option" "string option" "string option outcome" nat
  | Post_start "string option" nat "unit outcome" nat
  | Post_stop "string option" nat "unit outcome" nat

fun handle :: "database \<Rightarrow> api_request \<Rightarrow> database \<times> response \<times> runtime_call list" where
  "handle db (Post_workspaces su nm url runtime now) = post_workspaces db su nm url runtime now"
| "handle db (Post_start su i runtime now) = post_workspace_start db su i runtime now"
| "handle db (Post_stop su i runtime now) = post_workspace_stop db su i runtime now"

fun serve :: "database \<Rightarrow> api_request list \<Rightarrow> database \<times> (response \<times> runtime_call list) list" where
  "serve db [] = (db, [])"
| "serve db (rq # rqs) =
     (let (db', out) = handle db rq; (db'', outs) = serve db' rqs in (db'', out # outs))"

section \<open>The OAuth routes (auth-common.js and server.js)\<close>

text \<open>
  A value read from the query string or kept in the session: absent (\<open>undefined\<close>), a
  string, or an array or object built by the query parser. \<open>truthy\<close> is JavaScript's
  conversion to a boolean, \<open>strict_eq\<close> is \<open>===\<close> between a query value and a session
  value (two arrays or objects are never the same object), \<open>or_else\<close> is \<open>||\<close>.
\<close>

datatype jsval = Undefined | Str string | Obj

fun truthy :: "jsval \<Rightarrow> bool" where
  "truthy Undefined = False"
| "truthy (Str s) = (s \<noteq> [])"
| "truthy Obj = True"

fun strict_eq :: "jsval \<Rightarrow> jsval \<Rightarrow> bool" where
  "strict_eq Undefined Undefined = True"
| "strict_eq (Str a) (Str b) = (a = b)"
| "strict_eq _ _ = False"

definition or_else :: "jsval \<Rightarrow> jsval \<Rightarrow> jsval" where
  "or_else a b = (if truthy a then a else b)"

text \<open>
  The session of a request: the pending nonce \<open>oauthState\<close>, the target \<open>returnTo\<close>, and
  the user passport has logged in (\<open>None\<close> while the session is not authenticated).
\<close>

record session =
  oauthState :: jsval
  returnTo :: jsval
  passport_user :: "string option"

text \<open>
  What a route sends: \<open>res.status(n).send(text)\<close>; \<open>res.redirect(url)\<close>; the redirect to the
  provider that \<open>passport.authenticate('github', {scope, state})\<close> issues for a request
  without a code; the redirect to \<open>/?error=...\<close> with one of the route's three messages
  (the failure message may come from the strategy's \<open>info\<close>); and \<open>next(err)\<close>.
\<close>

datatype failure = AuthError | AuthFailed "string option" | LoginError

datatype reply =
    Send nat string
  | Redirect jsval
  | Provider_redirect "string list" string
  | Failure_redirect failure
  | Next_error string

text \<open>
  What happens on a request, in order: a completed write of the given session to the
  store, a failed one, and the reply as it goes out to the client.
\<close>

datatype effect = Session_saved session | Session_save_failed string | Reply reply

text \<open>
  The session store, given by the outcome of writing a session to it (\<open>store.set\<close>, which
  \<open>req.session.save\<close> calls). Both servers call \<open>session({...})\<close> without a \<open>store\<close>
  option, so express-session keeps the sessions in its \<open>MemoryStore\<close>: the write puts the
  serialised session into a table in memory and calls back without an error.
\<close>

type_synonym store = "session \<Rightarrow> unit outcome"



text \<open>
  \<open>GET /auth/github\<close> of the workspaces server: the nonce is put into the session and
  \<open>passport.authenticate\<close> is called at once, which ends the response with the redirect.
  The route has no save of its own: as the response ends, express-session writes the
  changed session to the store and only then lets the response go out. An error of that
  write is handed to \<open>next\<close> when the response has begun, so the redirect is sent all the
  same.
\<close>

definition get_auth_github :: "store \<Rightarrow> session \<Rightarrow> string \<Rightarrow> session \<times> effect list" where
  "get_auth_github store s state =
     (let s1 = s\<lparr>oauthState := Str state\<rparr>
      in (s1, [(case store s1 of Resolved _ \<Rightarrow> Session_saved s1
                | Rejected msg \<Rightarrow> Session_save_failed msg),
               Reply (Provider_redirect [''user:email''] state)]))"

text \<open>
  The outcome of the strategy on a callback request, as \<open>passport.authenticate\<close> reports
  it: an error, no user (with the message of \<open>info\<close>, if any), or a user. \<open>req.logIn\<close> is
  passport's: it is an argument, giving the session after the call and whether it failed.
\<close>

datatype auth_result = Auth_error string | Auth_fail "string option" | Auth_user string

type_synonym logIn = "session \<Rightarrow> string \<Rightarrow> session \<times> unit outcome"

text \<open>
  \<open>handleCallback\<close> of \<open>createOAuthRoutes\<close>, first middleware: the session-lost check
  \<open>!req.session.oauthState\<close>, the comparison \<open>req.query.state !== req.session.oauthState\<close>,
  and only then \<open>delete req.session.oauthState\<close> and \<open>next()\<close> (the result \<open>None\<close>).
\<close>

definition handleCallback_verify :: "session \<Rightarrow> jsval \<Rightarrow> session \<times> reply option" where
  "handleCallback_verify s query_state =
     (if \<not> truthy (oauthState s) then
        (s, Some (Send 403 ''Session lost during authentication. Please try logging in again.''))
      else if \<not> strict_eq query_state (oauthState s) then
        (s, Some (Send 403 ''Invalid state parameter. Please try logging in again.''))
      else (s\<lparr>oauthState := Undefined\<rparr>, None))"

text \<open>
  Second middleware: the callback given to \<open>passport.authenticate\<close>. On a user,
  \<open>returnTo = req.session.returnTo || successRedirect || '/'\<close> is read before \<open>req.logIn\<close>,
  and after the login the session is saved (a failure is only logged) and the redirect
  sent. \<open>successRedirect\<close> is \<open>defaultReturnTo || '/dashboard'\<close>.
\<close>

definition handleCallback_authenticate ::
  "jsval \<Rightarrow> session \<Rightarrow> auth_result \<Rightarrow> logIn \<Rightarrow> unit outcome \<Rightarrow> session \<times> effect list" where
  "handleCallback_authenticate defaultReturnTo s auth logIn save =
     (case auth of
        Auth_error msg \<Rightarrow> (s, [Reply (Failure_redirect AuthError)])
      | Auth_fail info \<Rightarrow> (s, [Reply (Failure_redirect (AuthFailed info))])
      | Auth_user u \<Rightarrow>
          (let successRedirect = or_else defaultReturnTo (Str ''/dashboard'');
               target = or_else (returnTo s) (or_else successRedirect (Str ''/''))
           in case logIn s u of
                (s', Rejected msg) \<Rightarrow> (s', [Reply (Failure_redirect LoginError)])
              | (s', Resolved _) \<Rightarrow>
                  (s', [(case save of Resolved _ \<Rightarrow> Session_saved s'
                         | Rejected msg \<Rightarrow> Session_save_failed msg),
                        Reply (Redirect target)])))"

definition handleCallback ::
  "jsval \<Rightarrow> session \<Rightarrow> jsval \<Rightarrow> auth_result \<Rightarrow> logIn \<Rightarrow> unit outcome \<Rightarrow> session \<times> effect list" where
  "handleCallback defaultReturnTo s query_state auth logIn save =
     (case handleCallback_verify s query_state of
        (s', Some r) \<Rightarrow> (s', [Reply r])
      | (s', None) \<Rightarrow> handleCallback_authenticate defaultReturnTo s' auth logIn save)"

text \<open>
  \<open>GET /auth/github/callback\<close> of the workspaces server, first middleware: the comparison
  \<open>req.query.state !== req.session.oauthState\<close>, then \<open>delete req.session.oauthState\<close> and
  \<open>next()\<close>.
\<close>

definition github_callback_verify :: "session \<Rightarrow> jsval \<Rightarrow> session \<times> reply option" where
  "github_callback_verify s query_state =
     (if \<not> strict_eq query_state (oauthState s) then
        (s, Some (Send 403 ''Invalid state parameter. Please try logging in again.''))
      else (s\<lparr>oauthState := Undefined\<rparr>, None))"

text \<open>
  Then \<open>passport.authenticate('github', { failureRedirect: '/' })\<close>, which passes an error
  to \<open>next\<close>, redirects to \<open>/\<close> without a user and logs a user in, and last the redirect to
  \<open>/dashboard\<close>.
\<close>

definition github_callback ::
  "session \<Rightarrow> jsval \<Rightarrow> auth_result \<Rightarrow> logIn \<Rightarrow> session \<times> effect list" where
  "github_callback s query_state auth logIn =
     (case github_callback_verify s query_state of
        (s', Some r) \<Rightarrow> (s', [Reply r])
      | (s', None) \<Rightarrow>
          (case auth of
             Auth_error msg \<Rightarrow> (s', [Reply (Next_error msg)])
           | Auth_fail info \<Rightarrow> (s', [Reply (Redirect (Str ''/''))])
           | Auth_user u \<Rightarrow>
               (case logIn s' u of
                  (s'', Rejected msg) \<Rightarrow> (s'', [Reply (Next_error msg)])
                | (s'', Resolved _) \<Rightarrow> (s'', [Reply (Redirect (Str ''/dashboard''))]))))"

section \<open>Example data\<close>

text \<open>
  A table with the one workspace \<open>proj-a\<close>, id 5, of the given owner, status and container,
  and the users \<open>alice\<close> and \<open>bob\<close>.
\<close>

definition example_workspace :: "string option \<Rightarrow> string \<Rightarrow> string option \<Rightarrow> workspace" where
  "example_workspace owner st containerId =
     \<lparr>ws_id = 5, user_id = owner, name = ''proj-a'', repo_url = ''https://git/x'',
      container_id = containerId, status = Some st, devcontainer_build_status = None,
      created_at = 1, updated_at = 1\<rparr>"

definition example_db :: "string option \<Rightarrow> string \<Rightarrow> string option \<Rightarrow> database" where
  "example_db owner st containerId =
     \<lparr>users = [''alice'', ''bob''], workspaces = [example_workspace owner st containerId],
      sqlite_sequence = 5, foreign_keys = True\<rparr>"

text \<open>The table before any workspace is created.\<close>

definition fresh_db :: database where
  "fresh_db = \<lparr>users = [''alice'', ''bob''], workspaces = [], sqlite_sequence = 0,
     foreign_keys = True\<rparr>"

text \<open>
  A session that is not logged in and holds the nonce \<open>legit-value\<close>, and a \<open>req.logIn\<close>
  that succeeds and attaches the user.
\<close>

definition example_session :: session where
  "example_session = \<lparr>oauthState = Str ''legit-value'', returnTo = Undefined, passport_user = None\<rparr>"

definition example_logIn :: logIn where
  "example_logIn s u = (s\<lparr>passport_user := Some u\<rparr>, Resolved ())"

section \<open>The registry's conditional writes\<close>

subsection \<open>Conditional updates on a table with a primary key\<close>

lemma update_where_miss:
  "\<forall>r\<in>set (workspaces db). \<not> cond r \<Longrightarrow> update_where cond upd db = (db, 0)"
  by (simp add: update_where_def map_idI)

lemma find_map_upd:
  "(\<And>r. ws_id (upd r) = ws_id r) \<Longrightarrow>
   find (\<lambda>r. ws_id r = j) (map (\<lambda>r. if cond r then upd r else r) rs) =
   map_option (\<lambda>r. if cond r then upd r else r) (find (\<lambda>r. ws_id r = j) rs)"
  by (induction rs) auto

lemma ids_map_upd:
  "(\<And>r. ws_id (upd r) = ws_id r) \<Longrightarrow>
   map ws_id (map (\<lambda>r. if cond r then upd r else r) rs) = map ws_id rs"
  by (induction rs) auto

lemma filter_id_le1:
  "distinct (map ws_id rs) \<Longrightarrow>
   length (filter (\<lambda>r. ws_id r = i \<and> P r) rs) =
     (case find (\<lambda>r. ws_id r = i) rs of None \<Rightarrow> 0 | Some r \<Rightarrow> if P r then 1 else 0)"
proof (induction rs)
  case Nil
  then show ?case by simp
next
  case (Cons a rs)
  have "ws_id a = i \<Longrightarrow> filter (\<lambda>r. ws_id r = i \<and> P r) rs = []"
    using Cons.prems by (auto simp: filter_empty_conv image_iff)
  with Cons show ?case by auto
qed

lemma find_id_Some:
  "find (\<lambda>r. ws_id r = i) rs = Some r \<Longrightarrow> ws_id r = i \<and> r \<in> set rs"
  by (induction rs) (auto split: if_splits)

lemma find_id_Some_unique:
  "distinct (map ws_id rs) \<Longrightarrow> find (\<lambda>r. ws_id r = i) rs = Some r \<Longrightarrow>
   r' \<in> set rs \<Longrightarrow> ws_id r' = i \<Longrightarrow> r' = r"
  by (induction rs) (force split: if_splits)+

text \<open>
  A conditional update of the row with id \<open>i\<close>: it changes one row when the row satisfies
  the rest of the condition, and otherwise it changes nothing.
\<close>

lemma update_where_id:
  assumes pk: "distinct (map ws_id (workspaces db))"
    and row: "getWorkspace db i = Some r"
    and upd: "\<And>r. ws_id (upd r) = ws_id r"
  shows "snd (update_where (\<lambda>r. ws_id r = i \<and> P r) upd db) = (if P r then 1 else 0)"
    and "P r \<Longrightarrow> getWorkspace (fst (update_where (\<lambda>r. ws_id r = i \<and> P r) upd db)) i = Some (upd r)"
    and "j \<noteq> i \<Longrightarrow> getWorkspace (fst (update_where (\<lambda>r. ws_id r = i \<and> P r) upd db)) j = getWorkspace db j"
    and "\<not> P r \<Longrightarrow> update_where (\<lambda>r. ws_id r = i \<and> P r) upd db = (db, 0)"
proof -
  show "snd (update_where (\<lambda>r. ws_id r = i \<and> P r) upd db) = (if P r then 1 else 0)"
    using row filter_id_le1 [OF pk, of i P]
    by (simp add: update_where_def getWorkspace_def)
  show "getWorkspace (fst (update_where (\<lambda>r. ws_id r = i \<and> P r) upd db)) i = Some (upd r)" if "P r"
    using row that find_id_Some [of i "workspaces db" r]
    by (simp add: update_where_def getWorkspace_def find_map_upd [of upd, OF upd])
  show "getWorkspace (fst (update_where (\<lambda>r. ws_id r = i \<and> P r) upd db)) j = getWorkspace db j"
    if "j \<noteq> i"
  proof (cases "getWorkspace db j")
    case None
    then show ?thesis
      by (simp add: update_where_def getWorkspace_def find_map_upd [of upd, OF upd])
  next
    case (Some w)
    then have "ws_id w = j" using find_id_Some unfolding getWorkspace_def by fast
    with Some that show ?thesis
      by (simp add: update_where_def getWorkspace_def find_map_upd [of upd, OF upd])
  qed
  show "update_where (\<lambda>r. ws_id r = i \<and> P r) upd db = (db, 0)" if "\<not> P r"
  proof -
    have "\<forall>r'\<in>set (workspaces db). \<not> (ws_id r' = i \<and> P r')"
      using find_id_Some_unique [OF pk] row that unfolding getWorkspace_def by blast
    then show ?thesis by (rule update_where_miss)
  qed
qed

lemma update_where_pk:
  "(\<And>r. ws_id (upd r) = ws_id r) \<Longrightarrow>
   map ws_id (workspaces (fst (update_where cond upd db))) = map ws_id (workspaces db)"
  by (simp add: update_where_def ids_map_upd)

subsection \<open>Status and container\<close>

text \<open>
  With an expected status, \<open>updateWorkspaceStatus\<close> and \<open>updateWorkspaceContainer\<close> are
  compare-and-swap writes: one row changes when the workspace has the expected status,
  and nothing changes otherwise. The container id is written by the second only.
\<close>

lemma updateWorkspaceStatus_cas:
  assumes pk: "distinct (map ws_id (workspaces db))"
    and row: "getWorkspace db i = Some r"
  shows "snd (updateWorkspaceStatus db i st (Some e) now) = (if status r = Some e then 1 else 0)"
    and "status r = Some e \<Longrightarrow>
           getWorkspace (fst (updateWorkspaceStatus db i st (Some e) now)) i
             = Some (r\<lparr>status := Some st, updated_at := now\<rparr>)"
    and "status r \<noteq> Some e \<Longrightarrow> updateWorkspaceStatus db i st (Some e) now = (db, 0)"
  using update_where_id(1,2,4) [OF pk row,
      where upd = "\<lambda>r. r\<lparr>status := Some st, updated_at := now\<rparr>" and P = "\<lambda>r. status r = Some e"]
  by (simp_all add: updateWorkspaceStatus_def)

lemma updateWorkspaceContainer_cas:
  assumes pk: "distinct (map ws_id (workspaces db))"
    and row: "getWorkspace db i = Some r"
  shows "snd (updateWorkspaceContainer db i c st (Some e) now) = (if status r = Some e then 1 else 0)"
    and "status r = Some e \<Longrightarrow>
           getWorkspace (fst (updateWorkspaceContainer db i c st (Some e) now)) i
             = Some (r\<lparr>container_id := c, status := Some st, updated_at := now\<rparr>)"
    and "status r \<noteq> Some e \<Longrightarrow> updateWorkspaceContainer db i c st (Some e) now = (db, 0)"
  using update_where_id(1,2,4) [OF pk row,
      where upd = "\<lambda>r. r\<lparr>container_id := c, status := Some st, updated_at := now\<rparr>"
        and P = "\<lambda>r. status r = Some e"]
  by (simp_all add: updateWorkspaceContainer_def)

lemma updateWorkspaceStatus_keeps_container:
  "map container_id (workspaces (fst (updateWorkspaceStatus db i st expected now)))
     = map container_id (workspaces db)"
  by (cases expected) (simp_all add: updateWorkspaceStatus_def update_where_def comp_def)

subsection \<open>Release\<close>

text \<open>
  Claim C7. On a table whose ids are a primary key and that holds workspace \<open>i\<close>,
  \<open>releaseWorkspace(i, u, e)\<close> changes one row exactly when the workspace's \<open>user_id\<close> is
  \<open>u\<close> and its status is \<open>e\<close>; then the workspace has \<open>user_id = NULL\<close> (and the new
  \<open>updated_at\<close>) and every other workspace reads as before. In every other case the
  statement reports zero changes and the whole table is as it was.
\<close>

theorem releaseWorkspace_cas:
  assumes pk: "distinct (map ws_id (workspaces db))"
    and row: "getWorkspace db i = Some r"
  shows "(snd (releaseWorkspace db i u e now) = 1 \<longleftrightarrow> user_id r = Some u \<and> status r = Some e)
       \<and> (snd (releaseWorkspace db i u e now) = 1 \<longrightarrow>
            getWorkspace (fst (releaseWorkspace db i u e now)) i
              = Some (r\<lparr>user_id := None, updated_at := now\<rparr>)
          \<and> (\<forall>j. j \<noteq> i \<longrightarrow>
               getWorkspace (fst (releaseWorkspace db i u e now)) j = getWorkspace db j))
       \<and> (snd (releaseWorkspace db i u e now) \<noteq> 1 \<longrightarrow>
            releaseWorkspace db i u e now = (db, 0))"
  unfolding releaseWorkspace_def
  using update_where_id [OF pk row, where upd = "\<lambda>r. r\<lparr>user_id := None, updated_at := now\<rparr>"
          and P = "\<lambda>r. user_id r = Some u \<and> status r = Some e"]
  by (simp split: if_splits)

theorem releaseWorkspace_cas_witness:
  "distinct (map ws_id (workspaces (example_db (Some ''alice'') ''stopped'' None)))
   \<and> getWorkspace (example_db (Some ''alice'') ''stopped'' None) 5
       = Some (example_workspace (Some ''alice'') ''stopped'' None)
   \<and> snd (releaseWorkspace (example_db (Some ''alice'') ''stopped'' None) 5 ''alice'' ''stopped'' 9) = 1
   \<and> getWorkspace (fst (releaseWorkspace (example_db (Some ''alice'') ''stopped'' None) 5
         ''alice'' ''stopped'' 9)) 5
       = Some (example_workspace None ''stopped'' None\<lparr>updated_at := 9\<rparr>)
   \<and> releaseWorkspace (example_db (Some ''alice'') ''running'' (Some ''c1'')) 5 ''alice'' ''stopped'' 9
       = (example_db (Some ''alice'') ''running'' (Some ''c1''), 0)"
proof -
  have pk: "distinct (map ws_id (workspaces (example_db (Some ''alice'') ''stopped'' None)))"
    by (simp add: example_db_def)
  have row: "getWorkspace (example_db (Some ''alice'') ''stopped'' None) 5
       = Some (example_workspace (Some ''alice'') ''stopped'' None)"
    by (simp add: example_db_def example_workspace_def getWorkspace_def)
  have pk2: "distinct (map ws_id (workspaces (example_db (Some ''alice'') ''running'' (Some ''c1''))))"
    by (simp add: example_db_def)
  have row2: "getWorkspace (example_db (Some ''alice'') ''running'' (Some ''c1'')) 5
       = Some (example_workspace (Some ''alice'') ''running'' (Some ''c1''))"
    by (simp add: example_db_def example_workspace_def getWorkspace_def)
  show ?thesis
    using pk row releaseWorkspace_cas [OF pk row, of "''alice''" "''stopped''" 9]
      releaseWorkspace_cas [OF pk2 row2, of "''alice''" "''stopped''" 9]
    by (simp add: example_workspace_def)
qed


subsection \<open>Acquire\<close>

lemma acquireWorkspace_no_row:
  assumes pk: "distinct (map ws_id (workspaces db))"
    and row: "getWorkspace db i = Some r"
    and owned: "\<not> (user_id r = None \<and> status r = Some e)"
  shows "acquireWorkspace db i u e now = Inr (db, 0)"
proof -
  have none: "\<forall>r'\<in>set (workspaces db). \<not> (ws_id r' = i \<and> user_id r' = None \<and> status r' = Some e)"
    using find_id_Some_unique [OF pk] row owned unfolding getWorkspace_def by blast
  then have "update_where (\<lambda>r. ws_id r = i \<and> user_id r = None \<and> status r = Some e)
      (\<lambda>r. r\<lparr>user_id := Some u, updated_at := now\<rparr>) db = (db, 0)"
    by (rule update_where_miss)
  moreover have "\<not> (\<exists>r'\<in>set (workspaces db). ws_id r' = i \<and> user_id r' = None \<and> status r' = Some e)"
    using none by blast
  ultimately show ?thesis unfolding acquireWorkspace_def Let_def by (simp only: simp_thms if_False)
qed

lemma acquire_calls_no_row:
  assumes pk: "distinct (map ws_id (workspaces db))"
    and row: "getWorkspace db i = Some r"
    and owned: "\<not> (user_id r = None \<and> status r = Some e)"
  shows "acquire_calls db i e calls = (map (\<lambda>c. Inr 0) calls, db)"
proof (induction calls)
  case Nil
  show ?case by simp
next
  case (Cons c calls)
  obtain u now where c: "c = (u, now)" by (cases c)
  show ?case
    using Cons acquireWorkspace_no_row [OF pk row owned, of u now] by (simp add: c)
qed

lemma acquireWorkspace_fk_error:
  assumes row: "getWorkspace db i = Some r"
    and free: "user_id r = None" "status r = Some e"
    and nofk: "\<not> fk_ok db (Some u)"
  shows "acquireWorkspace db i u e now = Inl SQLITE_CONSTRAINT_FOREIGNKEY"
proof -
  have "ws_id r = i \<and> r \<in> set (workspaces db)"
    using row find_id_Some unfolding getWorkspace_def by fast
  then have "\<exists>r'\<in>set (workspaces db). ws_id r' = i \<and> user_id r' = None \<and> status r' = Some e"
    using free by blast
  then show ?thesis using nofk unfolding acquireWorkspace_def Let_def by (simp only: simp_thms if_True)
qed

lemma acquire_calls_fk_errors:
  assumes row: "getWorkspace db i = Some r"
    and free: "user_id r = None" "status r = Some e"
  shows "\<forall>c\<in>set calls. \<not> fk_ok db (Some (fst c)) \<Longrightarrow>
         acquire_calls db i e (calls @ rest)
           = (map (\<lambda>c. Inl SQLITE_CONSTRAINT_FOREIGNKEY) calls @ fst (acquire_calls db i e rest),
              snd (acquire_calls db i e rest))"
proof (induction calls)
  case Nil
  show ?case by simp
next
  case (Cons c calls)
  obtain u now where c: "c = (u, now)" by (cases c)
  have "\<not> fk_ok db (Some u)" using Cons.prems c by simp
  then have "acquireWorkspace db i u e now = Inl SQLITE_CONSTRAINT_FOREIGNKEY"
    using acquireWorkspace_fk_error [OF row free] by blast
  moreover have "acquire_calls db i e (calls @ rest)
           = (map (\<lambda>c. Inl SQLITE_CONSTRAINT_FOREIGNKEY) calls @ fst (acquire_calls db i e rest),
              snd (acquire_calls db i e rest))"
    using Cons by simp
  ultimately show ?case by (simp add: c)
qed

text \<open>
  Claim C6, as amended. On a table whose ids are a primary key and that holds workspace
  \<open>i\<close>: for a caller \<open>u\<close> that passes the foreign key of \<open>user_id\<close> (a row of \<open>users\<close>),
  \<open>acquireWorkspace(i, u, e)\<close> returns, and changes one row exactly when the workspace's
  \<open>user_id\<close> is \<open>NULL\<close> and its status is \<open>e\<close>; then the workspace has \<open>user_id = u\<close> and
  every other workspace reads as before, and otherwise it reports zero changes and the
  table is as it was. For a caller that does not pass the foreign key the call throws the
  foreign key error on such a workspace, writing nothing, and reports zero changes on
  any other. Of any calls made one after another on a released workspace with the
  expected status, those before the first caller that passes the foreign key throw and
  change nothing, that caller's call changes the row, and every later call, whoever makes
  it, reports zero changes and leaves the table as that call left it: at most one call
  succeeds, and none when no caller passes the foreign key.
\<close>

theorem acquireWorkspace_cas:
  assumes pk: "distinct (map ws_id (workspaces db))"
    and row: "getWorkspace db i = Some r"
  shows "(fk_ok db (Some u) \<longrightarrow>
           (\<exists>db' n. acquireWorkspace db i u e now = Inr (db', n)
              \<and> (n = 1 \<longleftrightarrow> user_id r = None \<and> status r = Some e)
              \<and> (n = 1 \<longrightarrow> getWorkspace db' i = Some (r\<lparr>user_id := Some u, updated_at := now\<rparr>)
                   \<and> (\<forall>j. j \<noteq> i \<longrightarrow> getWorkspace db' j = getWorkspace db j))
              \<and> (n \<noteq> 1 \<longrightarrow> n = 0 \<and> db' = db)))
       \<and> (\<not> fk_ok db (Some u) \<longrightarrow>
            acquireWorkspace db i u e now
              = (if user_id r = None \<and> status r = Some e
                 then Inl SQLITE_CONSTRAINT_FOREIGNKEY else Inr (db, 0)))
       \<and> (user_id r = None \<and> status r = Some e \<and> fk_ok db (Some u)
            \<and> (\<forall>c\<in>set before. \<not> fk_ok db (Some (fst c))) \<longrightarrow>
            (\<exists>db'. acquireWorkspace db i u e now = Inr (db', 1)
               \<and> acquire_calls db i e (before @ (u, now) # after)
                   = (map (\<lambda>c. Inl SQLITE_CONSTRAINT_FOREIGNKEY) before
                        @ Inr 1 # map (\<lambda>c. Inr 0) after, db')))
       \<and> (user_id r = None \<and> status r = Some e
            \<and> (\<forall>c\<in>set calls. \<not> fk_ok db (Some (fst c))) \<longrightarrow>
            acquire_calls db i e calls
              = (map (\<lambda>c. Inl SQLITE_CONSTRAINT_FOREIGNKEY) calls, db))"
proof (cases "user_id r = None \<and> status r = Some e")
  case False
  have nr: "acquireWorkspace db i u e now = Inr (db, 0)"
    by (rule acquireWorkspace_no_row [OF pk row False])
  have A: "\<exists>db' n. acquireWorkspace db i u e now = Inr (db', n)
              \<and> (n = 1 \<longleftrightarrow> user_id r = None \<and> status r = Some e)
              \<and> (n = 1 \<longrightarrow> getWorkspace db' i = Some (r\<lparr>user_id := Some u, updated_at := now\<rparr>)
                   \<and> (\<forall>j. j \<noteq> i \<longrightarrow> getWorkspace db' j = getWorkspace db j))
              \<and> (n \<noteq> 1 \<longrightarrow> n = 0 \<and> db' = db)"
    unfolding nr using False by (intro exI [of _ db] exI [of _ 0]) simp
  have B: "acquireWorkspace db i u e now
              = (if user_id r = None \<and> status r = Some e
                 then Inl SQLITE_CONSTRAINT_FOREIGNKEY else Inr (db, 0))"
    unfolding nr using False by (simp only: if_False)
  show ?thesis using A B False by blast
next
  case True
  let ?upd = "\<lambda>r. r\<lparr>user_id := Some u, updated_at := now\<rparr>"
  let ?P = "\<lambda>r. user_id r = None \<and> status r = Some e"
  let ?R = "update_where (\<lambda>r. ws_id r = i \<and> ?P r) ?upd db"
  have free: "user_id r = None" "status r = Some e" using True by simp_all
  have n: "snd ?R = 1"
    using update_where_id(1) [OF pk row, where upd = ?upd and P = ?P] True by simp
  have row': "getWorkspace (fst ?R) i = Some (?upd r)"
    using update_where_id(2) [OF pk row, where upd = ?upd and P = ?P] True by simp
  have others: "\<forall>j. j \<noteq> i \<longrightarrow> getWorkspace (fst ?R) j = getWorkspace db j"
    using update_where_id(3) [OF pk row, where upd = ?upd and P = ?P] by simp
  have pk': "distinct (map ws_id (workspaces (fst ?R)))"
    using pk update_where_pk [where upd = ?upd] by simp
  have rest: "acquire_calls (fst ?R) i e after = (map (\<lambda>c. Inr 0) after, fst ?R)"
    by (rule acquire_calls_no_row [OF pk' row']) simp
  have acq: "acquireWorkspace db i u e now = Inr (fst ?R, 1)" if "fk_ok db (Some u)"
    using that n by (simp add: acquireWorkspace_def prod_eq_iff)
  have A: "\<exists>db' n. acquireWorkspace db i u e now = Inr (db', n)
              \<and> (n = 1 \<longleftrightarrow> user_id r = None \<and> status r = Some e)
              \<and> (n = 1 \<longrightarrow> getWorkspace db' i = Some (r\<lparr>user_id := Some u, updated_at := now\<rparr>)
                   \<and> (\<forall>j. j \<noteq> i \<longrightarrow> getWorkspace db' j = getWorkspace db j))
              \<and> (n \<noteq> 1 \<longrightarrow> n = 0 \<and> db' = db)" if "fk_ok db (Some u)"
    using acq [OF that] row' others True by simp
  have B: "acquireWorkspace db i u e now = Inl SQLITE_CONSTRAINT_FOREIGNKEY"
    if "\<not> fk_ok db (Some u)"
    using acquireWorkspace_fk_error [OF row free that] .
  have C: "\<exists>db'. acquireWorkspace db i u e now = Inr (db', 1)
               \<and> acquire_calls db i e (before @ (u, now) # after)
                   = (map (\<lambda>c. Inl SQLITE_CONSTRAINT_FOREIGNKEY) before
                        @ Inr 1 # map (\<lambda>c. Inr 0) after, db')"
    if fk: "fk_ok db (Some u)" and bef: "\<forall>c\<in>set before. \<not> fk_ok db (Some (fst c))"
  proof -
    have "acquire_calls db i e ((u, now) # after) = (Inr 1 # map (\<lambda>c. Inr 0) after, fst ?R)"
      using acq [OF fk] rest by simp
    then have "acquire_calls db i e (before @ (u, now) # after)
                   = (map (\<lambda>c. Inl SQLITE_CONSTRAINT_FOREIGNKEY) before
                        @ Inr 1 # map (\<lambda>c. Inr 0) after, fst ?R)"
      using acquire_calls_fk_errors [OF row free bef, of "(u, now) # after"] by simp
    with acq [OF fk] show ?thesis by blast
  qed
  have D: "acquire_calls db i e calls = (map (\<lambda>c. Inl SQLITE_CONSTRAINT_FOREIGNKEY) calls, db)"
    if "\<forall>c\<in>set calls. \<not> fk_ok db (Some (fst c))"
    using acquire_calls_fk_errors [OF row free that, of "[]"] by simp
  show ?thesis using True A B C D by simp
qed

theorem acquireWorkspace_cas_witness:
  "distinct (map ws_id (workspaces (example_db None ''stopped'' None)))
   \<and> getWorkspace (example_db None ''stopped'' None) 5 = Some (example_workspace None ''stopped'' None)
   \<and> fk_ok (example_db None ''stopped'' None) (Some ''alice'')
   \<and> \<not> fk_ok (example_db None ''stopped'' None) (Some ''carol'')
   \<and> acquireWorkspace (example_db None ''stopped'' None) 5 ''alice'' ''stopped'' 9
       = Inr (example_db (Some ''alice'') ''stopped'' None
                \<lparr>workspaces := [example_workspace (Some ''alice'') ''stopped'' None\<lparr>updated_at := 9\<rparr>]\<rparr>, 1)
   \<and> acquireWorkspace (example_db None ''stopped'' None) 5 ''carol'' ''stopped'' 9
       = Inl SQLITE_CONSTRAINT_FOREIGNKEY
   \<and> fst (acquire_calls (example_db None ''stopped'' None) 5 ''stopped''
        [(''carol'', 8), (''alice'', 9), (''bob'', 10), (''carol'', 11)])
       = [Inl SQLITE_CONSTRAINT_FOREIGNKEY, Inr 1, Inr 0, Inr 0]
   \<and> acquire_calls (example_db None ''stopped'' None) 5 ''stopped'' [(''carol'', 8), (''dave'', 9)]
       = ([Inl SQLITE_CONSTRAINT_FOREIGNKEY, Inl SQLITE_CONSTRAINT_FOREIGNKEY],
          example_db None ''stopped'' None)"
proof -
  let ?D = "example_db None ''stopped'' None"
  have pk: "distinct (map ws_id (workspaces ?D))"
    by (simp add: example_db_def)
  have row: "getWorkspace ?D 5 = Some (example_workspace None ''stopped'' None)"
    by (simp add: example_db_def example_workspace_def getWorkspace_def)
  have free: "user_id (example_workspace None ''stopped'' None) = None"
    "status (example_workspace None ''stopped'' None) = Some ''stopped''"
    by (simp_all add: example_workspace_def)
  have fk: "fk_ok ?D (Some ''alice'')"
    by (simp add: example_db_def fk_ok_def)
  have nofk: "\<not> fk_ok ?D (Some ''carol'')" "\<not> fk_ok ?D (Some ''dave'')"
    by (simp_all add: example_db_def fk_ok_def)
  have run: "acquireWorkspace ?D 5 ''alice'' ''stopped'' 9
       = Inr (example_db (Some ''alice'') ''stopped'' None
                \<lparr>workspaces := [example_workspace (Some ''alice'') ''stopped'' None\<lparr>updated_at := 9\<rparr>]\<rparr>, 1)"
    by (simp add: acquireWorkspace_def update_where_def example_db_def example_workspace_def fk_ok_def)
  note t1 = acquireWorkspace_cas [OF pk row, where u = "''alice''" and e = "''stopped''" and now = 9
      and before = "[(''carol'', 8)]" and after = "[(''bob'', 10), (''carol'', 11)]"
      and calls = "[(''carol'', 8), (''dave'', 9)]"]
  note t2 = acquireWorkspace_cas [OF pk row, where u = "''carol''" and e = "''stopped''" and now = 9
      and before = "[]" and after = "[]" and calls = "[]"]
  have c: "acquireWorkspace ?D 5 ''carol'' ''stopped'' 9 = Inl SQLITE_CONSTRAINT_FOREIGNKEY"
    using t2 nofk free by simp
  have s1: "fst (acquire_calls ?D 5 ''stopped''
        [(''carol'', 8), (''alice'', 9), (''bob'', 10), (''carol'', 11)])
       = [Inl SQLITE_CONSTRAINT_FOREIGNKEY, Inr 1, Inr 0, Inr 0]"
    using t1 fk nofk free by auto
  have s2: "acquire_calls ?D 5 ''stopped'' [(''carol'', 8), (''dave'', 9)]
       = ([Inl SQLITE_CONSTRAINT_FOREIGNKEY, Inl SQLITE_CONSTRAINT_FOREIGNKEY], ?D)"
    using t1 nofk free by simp
  show ?thesis using pk row fk nofk(1) run c s1 s2 by blast
qed

text \<open>
  Claim C6 as stated fails: workspace 5 is released and stopped, \<open>carol\<close> is no row of
  \<open>users\<close>, and her call throws instead of succeeding; of the two calls by \<open>carol\<close> and
  \<open>dave\<close> none succeeds.
\<close>

theorem acquire_unregistered_counterexample:
  "getWorkspace (example_db None ''stopped'' None) 5 = Some (example_workspace None ''stopped'' None)
   \<and> user_id (example_workspace None ''stopped'' None) = None
   \<and> status (example_workspace None ''stopped'' None) = Some ''stopped''
   \<and> acquireWorkspace (example_db None ''stopped'' None) 5 ''carol'' ''stopped'' 9
       = Inl SQLITE_CONSTRAINT_FOREIGNKEY
   \<and> acquire_calls (example_db None ''stopped'' None) 5 ''stopped'' [(''carol'', 9), (''dave'', 10)]
       = ([Inl SQLITE_CONSTRAINT_FOREIGNKEY, Inl SQLITE_CONSTRAINT_FOREIGNKEY],
          example_db None ''stopped'' None)"
  by (simp add: acquireWorkspace_def getWorkspace_def fk_ok_def example_db_def example_workspace_def)

subsection \<open>Create\<close>

lemma fold_max_ge: "(a::nat) \<le> fold max xs a"
  by (induction xs arbitrary: a) (auto intro: order_trans [OF max.cobounded2])

lemma fold_max_mem: "x \<in> set xs \<Longrightarrow> (x::nat) \<le> fold max xs a"
proof (induction xs arbitrary: a)
  case Nil
  then show ?case by simp
next
  case (Cons y ys)
  show ?case
  proof (cases "x = y")
    case True
    have "max y a \<le> fold max ys (max y a)" by (rule fold_max_ge)
    with True show ?thesis by simp
  next
    case False
    with Cons show ?thesis by simp
  qed
qed

lemma fresh_id: "Suc (fold max (map ws_id rs) a) \<notin> ws_id ` set rs"
proof
  assume "Suc (fold max (map ws_id rs) a) \<in> ws_id ` set rs"
  then have "Suc (fold max (map ws_id rs) a) \<in> set (map ws_id rs)" by simp
  then have "Suc (fold max (map ws_id rs) a) \<le> fold max (map ws_id rs) a"
    by (rule fold_max_mem)
  then show False by simp
qed

lemma deserializeUser_fk: "deserializeUser db su = Some uid \<Longrightarrow> fk_ok db (Some uid)"
  by (auto simp: deserializeUser_def fk_ok_def split: option.splits if_splits)

text \<open>An insertion keeps the ids a primary key and the names unique.\<close>

lemma createWorkspace_pk:
  assumes "distinct (map ws_id (workspaces db))"
    and "createWorkspace db userId nm url containerId st now = Inr (db', i)"
  shows "distinct (map ws_id (workspaces db'))"
  using assms fresh_id [of "workspaces db" "sqlite_sequence db"]
  by (auto simp: createWorkspace_def Let_def split: if_splits)

lemma createWorkspace_names:
  assumes "distinct (map name (workspaces db))"
    and "createWorkspace db userId nm url containerId st now = Inr (db', i)"
  shows "distinct (map name (workspaces db'))"
  using assms by (auto simp: createWorkspace_def Let_def split: if_splits)

text \<open>
  Claim C5, as amended. \<open>createWorkspace\<close> throws the \<open>UNIQUE\<close> constraint error, writing
  nothing, whenever a workspace of the same name exists. Otherwise, when the foreign key
  of \<open>user_id\<close> is satisfied, it appends one row with an id no row has, returns that id,
  and the row's status and \<open>container_id\<close> are the ones the caller passed. The caller
  \<open>POST /api/workspaces\<close>, for a logged-in user and a well-formed name once the runtime
  has built the workspace, passes status \<open>running\<close> and the runtime's container id and
  answers 200; on an existing name it answers 500 and the table is as it was.
\<close>

theorem createWorkspace_caller_status:
  "((\<exists>r\<in>set (workspaces db). name r = nm) \<longrightarrow>
      createWorkspace db userId nm url containerId st now = Inl SQLITE_CONSTRAINT_UNIQUE)
   \<and> ((\<forall>r\<in>set (workspaces db). name r \<noteq> nm) \<and> fk_ok db userId \<longrightarrow>
        (\<exists>db' i w. createWorkspace db userId nm url containerId st now = Inr (db', i)
           \<and> workspaces db' = workspaces db @ [w]
           \<and> ws_id w = i \<and> i \<notin> ws_id ` set (workspaces db)
           \<and> user_id w = userId \<and> name w = nm \<and> repo_url w = url
           \<and> container_id w = containerId \<and> status w = st))
   \<and> (deserializeUser db su = Some uid \<and> nm \<noteq> [] \<and> url \<noteq> [] \<and> valid_name nm \<longrightarrow>
        (if \<exists>r\<in>set (workspaces db). name r = nm
         then post_workspaces db su (Some nm) (Some url) (Resolved containerId) now
                = (db, Response 500 (Error_body (message SQLITE_CONSTRAINT_UNIQUE)),
                   [CreateWorkspace nm url])
         else (\<exists>db' w. post_workspaces db su (Some nm) (Some url) (Resolved containerId) now
                  = (db', Response 200 (Created_body containerId), [CreateWorkspace nm url])
                \<and> workspaces db' = workspaces db @ [w]
                \<and> user_id w = Some uid \<and> name w = nm
                \<and> container_id w = containerId \<and> status w = Some ''running'')))"
proof (intro conjI impI)
  assume "\<exists>r\<in>set (workspaces db). name r = nm"
  then show "createWorkspace db userId nm url containerId st now = Inl SQLITE_CONSTRAINT_UNIQUE"
    by (simp add: createWorkspace_def)
next
  assume "(\<forall>r\<in>set (workspaces db). name r \<noteq> nm) \<and> fk_ok db userId"
  then show "\<exists>db' i w. createWorkspace db userId nm url containerId st now = Inr (db', i)
           \<and> workspaces db' = workspaces db @ [w]
           \<and> ws_id w = i \<and> i \<notin> ws_id ` set (workspaces db)
           \<and> user_id w = userId \<and> name w = nm \<and> repo_url w = url
           \<and> container_id w = containerId \<and> status w = st"
    using fresh_id [of "workspaces db" "sqlite_sequence db"]
    by (simp add: createWorkspace_def Let_def)
next
  assume a: "deserializeUser db su = Some uid \<and> nm \<noteq> [] \<and> url \<noteq> [] \<and> valid_name nm"
  then have fk: "fk_ok db (Some uid)" using deserializeUser_fk by blast
  show "if \<exists>r\<in>set (workspaces db). name r = nm
         then post_workspaces db su (Some nm) (Some url) (Resolved containerId) now
                = (db, Response 500 (Error_body (message SQLITE_CONSTRAINT_UNIQUE)),
                   [CreateWorkspace nm url])
         else (\<exists>db' w. post_workspaces db su (Some nm) (Some url) (Resolved containerId) now
                  = (db', Response 200 (Created_body containerId), [CreateWorkspace nm url])
                \<and> workspaces db' = workspaces db @ [w]
                \<and> user_id w = Some uid \<and> name w = nm
                \<and> container_id w = containerId \<and> status w = Some ''running'')"
    using a fk by (simp add: post_workspaces_def createWorkspace_def Let_def)
qed

theorem createWorkspace_caller_status_witness:
  "''proj-a'' \<notin> name ` set (workspaces fresh_db) \<and> fk_ok fresh_db (Some ''alice'')
   \<and> deserializeUser fresh_db (Some ''alice'') = Some ''alice'' \<and> valid_name ''proj-a''
   \<and> (\<exists>r\<in>set (workspaces (example_db (Some ''alice'') ''stopped'' None)). name r = ''proj-a'')
   \<and> createWorkspace (example_db (Some ''alice'') ''stopped'' None) (Some ''bob'') ''proj-a''
        ''https://git/y'' None (Some ''stopped'') 2 = Inl SQLITE_CONSTRAINT_UNIQUE
   \<and> (\<exists>db' i w. createWorkspace fresh_db (Some ''alice'') ''proj-a'' ''https://git/x'' None
          (Some ''stopped'') 1 = Inr (db', i)
        \<and> workspaces db' = [w] \<and> container_id w = None \<and> status w = Some ''stopped'')
   \<and> (\<exists>db' w. post_workspaces fresh_db (Some ''alice'') (Some ''proj-a'') (Some ''https://git/x'')
          (Resolved (Some ''c1'')) 1
            = (db', Response 200 (Created_body (Some ''c1'')), [CreateWorkspace ''proj-a'' ''https://git/x''])
        \<and> workspaces db' = [w] \<and> status w = Some ''running'')"
proof -
  have h1: "\<forall>r\<in>set (workspaces fresh_db). name r \<noteq> ''proj-a''"
    by (simp add: fresh_db_def)
  have h2: "fk_ok fresh_db (Some ''alice'')"
    by (simp add: fresh_db_def fk_ok_def)
  have h3: "deserializeUser fresh_db (Some ''alice'') = Some ''alice''"
    by (simp add: fresh_db_def deserializeUser_def)
  have h4: "valid_name ''proj-a''"
    by (simp add: valid_name_def)
  have h5: "\<exists>r\<in>set (workspaces (example_db (Some ''alice'') ''stopped'' None)). name r = ''proj-a''"
    by (simp add: example_db_def example_workspace_def)
  have w0: "workspaces fresh_db = []" by (simp add: fresh_db_def)
  note dup = createWorkspace_caller_status [where db = "example_db (Some ''alice'') ''stopped'' None"
        and nm = "''proj-a''" and userId = "Some ''bob''" and url = "''https://git/y''"
        and containerId = None and st = "Some ''stopped''" and now = 2
        and su = "Some ''alice''" and uid = "''alice''"]
  note new = createWorkspace_caller_status [where db = fresh_db
        and nm = "''proj-a''" and userId = "Some ''alice''" and url = "''https://git/x''"
        and containerId = None and st = "Some ''stopped''" and now = 1
        and su = "Some ''alice''" and uid = "''alice''"]
  note post = createWorkspace_caller_status [where db = fresh_db
        and nm = "''proj-a''" and userId = "Some ''alice''" and url = "''https://git/x''"
        and containerId = "Some ''c1''" and st = "Some ''stopped''" and now = 1
        and su = "Some ''alice''" and uid = "''alice''"]
  have c1: "createWorkspace (example_db (Some ''alice'') ''stopped'' None) (Some ''bob'') ''proj-a''
        ''https://git/y'' None (Some ''stopped'') 2 = Inl SQLITE_CONSTRAINT_UNIQUE"
    using dup h5 by blast
  have c2: "\<exists>db' i w. createWorkspace fresh_db (Some ''alice'') ''proj-a'' ''https://git/x'' None
          (Some ''stopped'') 1 = Inr (db', i)
        \<and> workspaces db' = [w] \<and> container_id w = None \<and> status w = Some ''stopped''"
    using new h1 h2 unfolding w0 by fastforce
  have c3: "\<exists>db' w. post_workspaces fresh_db (Some ''alice'') (Some ''proj-a'') (Some ''https://git/x'')
          (Resolved (Some ''c1'')) 1
            = (db', Response 200 (Created_body (Some ''c1'')), [CreateWorkspace ''proj-a'' ''https://git/x''])
        \<and> workspaces db' = [w] \<and> status w = Some ''running''"
    using post h1 h3 h4 unfolding w0 by fastforce
  have h1': "''proj-a'' \<notin> name ` set (workspaces fresh_db)"
    by (simp add: w0)
  show ?thesis
    using h1' h2 h3 h4 h5 c1 c2 c3 by blast
qed

text \<open>
  Claim C5 as stated fails: the first workspace \<open>proj-a\<close> created through the route is stored
  as \<open>running\<close> with the container \<open>c1\<close>, and the registry function stores the status and
  container it is handed.
\<close>

theorem createWorkspace_status_counterexample:
  "map (\<lambda>r. (name r, status r, container_id r))
     (workspaces (fst (post_workspaces fresh_db (Some ''alice'') (Some ''proj-a'')
        (Some ''https://git/x'') (Resolved (Some ''c1'')) 1)))
   = [(''proj-a'', Some ''running'', Some ''c1'')]
   \<and> map (\<lambda>r. (name r, status r, container_id r))
     (workspaces (fst (projr (createWorkspace fresh_db (Some ''alice'') ''proj-a''
        ''https://git/x'' (Some ''c1'') (Some ''running'') 1))))
   = [(''proj-a'', Some ''running'', Some ''c1'')]"
  by (simp add: post_workspaces_def createWorkspace_def deserializeUser_def fresh_db_def
        valid_name_def fk_ok_def)


section \<open>The API routes\<close>


subsection \<open>Fetching one workspace\<close>

text \<open>
  Claim C9, as amended. For a logged-in user, \<open>GET /api/workspaces/:id\<close> answers 200
  exactly when the workspace exists and its \<open>user_id\<close> is the user's id, and the body is
  then the workspace; in every other case, a released workspace (\<open>user_id\<close> \<open>NULL\<close>) among
  them, it answers 404.
\<close>

theorem get_workspace_owner_only:
  assumes "deserializeUser db su = Some uid"
  shows "(code (get_workspace db su i) = 200
            \<longleftrightarrow> (\<exists>w. getWorkspace db i = Some w \<and> user_id w = Some uid))
       \<and> (\<forall>w. getWorkspace db i = Some w \<and> user_id w = Some uid
            \<longrightarrow> get_workspace db su i = Response 200 (Workspace_body w))
       \<and> (\<forall>w. getWorkspace db i = Some w \<and> user_id w = None
            \<longrightarrow> get_workspace db su i = Response 404 (Error_body ''Workspace not found''))
       \<and> (code (get_workspace db su i) \<noteq> 200
            \<longrightarrow> get_workspace db su i = Response 404 (Error_body ''Workspace not found''))"
  using assms by (auto simp: get_workspace_def not_found_def split: option.splits)

theorem get_workspace_owner_only_witness:
  "deserializeUser (example_db (Some ''alice'') ''stopped'' None) (Some ''alice'') = Some ''alice''
   \<and> get_workspace (example_db (Some ''alice'') ''stopped'' None) (Some ''alice'') 5
       = Response 200 (Workspace_body (example_workspace (Some ''alice'') ''stopped'' None))
   \<and> get_workspace (example_db (Some ''alice'') ''stopped'' None) (Some ''alice'') 6
       = Response 404 (Error_body ''Workspace not found'')"
proof -
  have h: "deserializeUser (example_db (Some ''alice'') ''stopped'' None) (Some ''alice'') = Some ''alice''"
    by (simp add: deserializeUser_def example_db_def)
  have row: "getWorkspace (example_db (Some ''alice'') ''stopped'' None) 5
       = Some (example_workspace (Some ''alice'') ''stopped'' None)"
    by (simp add: example_db_def example_workspace_def getWorkspace_def)
  have none: "getWorkspace (example_db (Some ''alice'') ''stopped'' None) 6 = None"
    by (simp add: example_db_def example_workspace_def getWorkspace_def)
  have own: "user_id (example_workspace (Some ''alice'') ''stopped'' None) = Some ''alice''"
    by (simp add: example_workspace_def)
  show ?thesis
    using h row none own get_workspace_owner_only [OF h, of 5] get_workspace_owner_only [OF h, of 6]
    by simp
qed

text \<open>
  Claim C9 as stated fails: the workspace 5 exists and is released, \<open>alice\<close> is logged in,
  and the answer is 404.
\<close>

theorem get_workspace_released_counterexample:
  "getWorkspace (example_db None ''stopped'' None) 5 = Some (example_workspace None ''stopped'' None)
   \<and> user_id (example_workspace None ''stopped'' None) = None
   \<and> deserializeUser (example_db None ''stopped'' None) (Some ''alice'') = Some ''alice''
   \<and> get_workspace (example_db None ''stopped'' None) (Some ''alice'') 5
       = Response 404 (Error_body ''Workspace not found'')"
  by (simp add: get_workspace_def not_found_def deserializeUser_def getWorkspace_def
        example_db_def example_workspace_def)


subsection \<open>Start and stop\<close>

lemma updateWorkspaceStatus_force:
  assumes pk: "distinct (map ws_id (workspaces db))"
    and row: "getWorkspace db i = Some w"
  shows "getWorkspace (fst (updateWorkspaceStatus db i st None now)) i
           = Some (w\<lparr>status := Some st, updated_at := now\<rparr>)"
    and "j \<noteq> i \<Longrightarrow> getWorkspace (fst (updateWorkspaceStatus db i st None now)) j = getWorkspace db j"
  using update_where_id(2,3) [OF pk row, where upd = "\<lambda>r. r\<lparr>status := Some st, updated_at := now\<rparr>"
      and P = "\<lambda>r. True"]
  by (simp_all add: updateWorkspaceStatus_def)

lemma start_code: "code (fst (snd (post_workspace_start db su i rt now))) \<in> {200, 401, 404, 500}"
  by (simp add: post_workspace_start_def unauthorized_def not_found_def
        split: option.splits outcome.splits)

lemma stop_code: "code (fst (snd (post_workspace_stop db su i rt now))) \<in> {200, 401, 404, 500}"
  by (simp add: post_workspace_stop_def unauthorized_def not_found_def
        split: option.splits outcome.splits)

text \<open>
  Claim C1, as amended. For a start (and in the same way a stop) request of the owner on
  an existing workspace, on a table whose ids are a primary key, the handler makes no
  conditional status update: whatever the status of the workspace and whatever the runtime
  then answers, it calls the runtime once with the stored container id; when the call
  resolves it answers 200 and the workspace has status \<open>running\<close> (\<open>stopped\<close>), set
  without an expected status, every other workspace reading as before. The answer is
  never 409.
\<close>

theorem start_stop_unconditional:
  assumes pk: "distinct (map ws_id (workspaces db))"
    and auth: "deserializeUser db su = Some uid"
    and row: "getWorkspace db i = Some w"
    and own: "user_id w = Some uid"
  shows "snd (snd (post_workspace_start db su i rt now)) = [StartWorkspace (container_id w)]
       \<and> snd (snd (post_workspace_stop db su i rt now)) = [StopWorkspace (container_id w)]
       \<and> (\<exists>db'. post_workspace_start db su i (Resolved x) now
                  = (db', Response 200 Success_body, [StartWorkspace (container_id w)])
              \<and> getWorkspace db' i = Some (w\<lparr>status := Some ''running'', updated_at := now\<rparr>)
              \<and> (\<forall>j. j \<noteq> i \<longrightarrow> getWorkspace db' j = getWorkspace db j))
       \<and> (\<exists>db'. post_workspace_stop db su i (Resolved x) now
                  = (db', Response 200 Success_body, [StopWorkspace (container_id w)])
              \<and> getWorkspace db' i = Some (w\<lparr>status := Some ''stopped'', updated_at := now\<rparr>)
              \<and> (\<forall>j. j \<noteq> i \<longrightarrow> getWorkspace db' j = getWorkspace db j))
       \<and> code (fst (snd (post_workspace_start db su i rt now))) \<noteq> 409
       \<and> code (fst (snd (post_workspace_stop db su i rt now))) \<noteq> 409"
proof -
  have calls: "snd (snd (post_workspace_start db su i rt now)) = [StartWorkspace (container_id w)]"
    "snd (snd (post_workspace_stop db su i rt now)) = [StopWorkspace (container_id w)]"
    using auth row own
    by (simp_all add: post_workspace_start_def post_workspace_stop_def split: outcome.splits)
  have start: "post_workspace_start db su i (Resolved x) now
      = (fst (updateWorkspaceStatus db i ''running'' None now), Response 200 Success_body,
         [StartWorkspace (container_id w)])"
    using auth row own by (simp add: post_workspace_start_def)
  have stop: "post_workspace_stop db su i (Resolved x) now
      = (fst (updateWorkspaceStatus db i ''stopped'' None now), Response 200 Success_body,
         [StopWorkspace (container_id w)])"
    using auth row own by (simp add: post_workspace_stop_def)
  have no409: "code (fst (snd (post_workspace_start db su i rt now))) \<noteq> 409"
    "code (fst (snd (post_workspace_stop db su i rt now))) \<noteq> 409"
    using start_code [of db su i rt now] stop_code [of db su i rt now] by auto
  show ?thesis
    using calls start stop no409 updateWorkspaceStatus_force [OF pk row] by simp
qed

theorem start_stop_unconditional_witness:
  "distinct (map ws_id (workspaces (example_db (Some ''alice'') ''running'' (Some ''c1''))))
   \<and> deserializeUser (example_db (Some ''alice'') ''running'' (Some ''c1'')) (Some ''alice'') = Some ''alice''
   \<and> getWorkspace (example_db (Some ''alice'') ''running'' (Some ''c1'')) 5
        = Some (example_workspace (Some ''alice'') ''running'' (Some ''c1''))
   \<and> user_id (example_workspace (Some ''alice'') ''running'' (Some ''c1'')) = Some ''alice''
   \<and> snd (snd (post_workspace_start (example_db (Some ''alice'') ''running'' (Some ''c1''))
         (Some ''alice'') 5 (Resolved ()) 9)) = [StartWorkspace (Some ''c1'')]
   \<and> code (fst (snd (post_workspace_start (example_db (Some ''alice'') ''running'' (Some ''c1''))
         (Some ''alice'') 5 (Resolved ()) 9))) \<noteq> 409"
proof -
  have pk: "distinct (map ws_id (workspaces (example_db (Some ''alice'') ''running'' (Some ''c1''))))"
    by (simp add: example_db_def)
  have auth: "deserializeUser (example_db (Some ''alice'') ''running'' (Some ''c1'')) (Some ''alice'')
      = Some ''alice''"
    by (simp add: deserializeUser_def example_db_def)
  have row: "getWorkspace (example_db (Some ''alice'') ''running'' (Some ''c1'')) 5
        = Some (example_workspace (Some ''alice'') ''running'' (Some ''c1''))"
    by (simp add: example_db_def example_workspace_def getWorkspace_def)
  have own: "user_id (example_workspace (Some ''alice'') ''running'' (Some ''c1'')) = Some ''alice''"
    by (simp add: example_workspace_def)
  have cid: "container_id (example_workspace (Some ''alice'') ''running'' (Some ''c1'')) = Some ''c1''"
    by (simp add: example_workspace_def)
  show ?thesis
    using pk auth row own
      start_stop_unconditional [OF pk auth row own, where rt = "Resolved ()" and now = 9 and x = "()"]
    unfolding cid by blast
qed

text \<open>
  Claim C1 as stated fails: of two start requests of the owner on the stopped workspace 5,
  the second arrives when the status is already \<open>running\<close>; both call the runtime and both
  are answered 200.
\<close>

theorem start_conflict_counterexample:
  "snd (serve (example_db (Some ''alice'') ''stopped'' (Some ''c1''))
          [Post_start (Some ''alice'') 5 (Resolved ()) 2,
           Post_start (Some ''alice'') 5 (Resolved ()) 3])
   = [(Response 200 Success_body, [StartWorkspace (Some ''c1'')]),
      (Response 200 Success_body, [StartWorkspace (Some ''c1'')])]"
  by (simp add: post_workspace_start_def deserializeUser_def getWorkspace_def
        updateWorkspaceStatus_def update_where_def example_db_def example_workspace_def)

text \<open>
  Claim C2, as amended. For a start or stop request of the owner on an existing workspace
  whose runtime call rejects, the caller is answered 500 with the error's message and the
  table is exactly as before the request: the status and the \<open>container_id\<close> of the
  workspace are unchanged, and no status \<open>error\<close> is written.
\<close>

theorem start_stop_runtime_failure:
  assumes auth: "deserializeUser db su = Some uid"
    and row: "getWorkspace db i = Some w"
    and own: "user_id w = Some uid"
  shows "post_workspace_start db su i (Rejected msg) now
           = (db, Response 500 (Error_body msg), [StartWorkspace (container_id w)])
       \<and> post_workspace_stop db su i (Rejected msg) now
           = (db, Response 500 (Error_body msg), [StopWorkspace (container_id w)])"
  using assms by (simp add: post_workspace_start_def post_workspace_stop_def)

theorem start_stop_runtime_failure_witness:
  "deserializeUser (example_db (Some ''alice'') ''running'' (Some ''c1'')) (Some ''alice'') = Some ''alice''
   \<and> getWorkspace (example_db (Some ''alice'') ''running'' (Some ''c1'')) 5
        = Some (example_workspace (Some ''alice'') ''running'' (Some ''c1''))
   \<and> user_id (example_workspace (Some ''alice'') ''running'' (Some ''c1'')) = Some ''alice''
   \<and> post_workspace_stop (example_db (Some ''alice'') ''running'' (Some ''c1'')) (Some ''alice'') 5
        (Rejected ''no such container'') 9
      = (example_db (Some ''alice'') ''running'' (Some ''c1''),
         Response 500 (Error_body ''no such container''), [StopWorkspace (Some ''c1'')])"
proof -
  have auth: "deserializeUser (example_db (Some ''alice'') ''running'' (Some ''c1'')) (Some ''alice'')
      = Some ''alice''"
    by (simp add: deserializeUser_def example_db_def)
  have row: "getWorkspace (example_db (Some ''alice'') ''running'' (Some ''c1'')) 5
        = Some (example_workspace (Some ''alice'') ''running'' (Some ''c1''))"
    by (simp add: example_db_def example_workspace_def getWorkspace_def)
  have own: "user_id (example_workspace (Some ''alice'') ''running'' (Some ''c1'')) = Some ''alice''"
    by (simp add: example_workspace_def)
  have cid: "container_id (example_workspace (Some ''alice'') ''running'' (Some ''c1'')) = Some ''c1''"
    by (simp add: example_workspace_def)
  show ?thesis
    using auth row own
      start_stop_runtime_failure [OF auth row own, where msg = "''no such container''" and now = 9]
    unfolding cid by blast
qed

text \<open>
  Claim C2 as stated fails: after a rejected start of the stopped workspace 5 the answer is
  500 and the status is still \<open>stopped\<close>, not \<open>error\<close>.
\<close>

theorem start_failure_status_counterexample:
  "fst (snd (post_workspace_start (example_db (Some ''alice'') ''stopped'' (Some ''c1''))
        (Some ''alice'') 5 (Rejected ''no such container'') 2))
     = Response 500 (Error_body ''no such container'')
   \<and> map status (workspaces (fst (post_workspace_start
        (example_db (Some ''alice'') ''stopped'' (Some ''c1''))
        (Some ''alice'') 5 (Rejected ''no such container'') 2)))
     = [Some ''stopped'']"
  by (simp add: post_workspace_start_def deserializeUser_def getWorkspace_def
        example_db_def example_workspace_def)

subsection \<open>Runs of create, start and stop\<close>

lemma update_status_rows:
  "workspaces (fst (updateWorkspaceStatus db i st None now))
     = map (\<lambda>r. if ws_id r = i then r\<lparr>status := Some st, updated_at := now\<rparr> else r) (workspaces db)"
  by (simp add: updateWorkspaceStatus_def update_where_def)

lemma handle_rows:
  "workspaces (fst (handle db rq)) = workspaces db
   \<or> (\<exists>w. workspaces (fst (handle db rq)) = workspaces db @ [w] \<and> status w = Some ''running'')
   \<or> (\<exists>i st now. (st = ''running'' \<or> st = ''stopped'') \<and>
        workspaces (fst (handle db rq))
          = map (\<lambda>r. if ws_id r = i then r\<lparr>status := Some st, updated_at := now\<rparr> else r)
              (workspaces db))"
proof (cases rq)
  case (Post_workspaces su nm url rt now)
  then show ?thesis
    by (auto simp: post_workspaces_def createWorkspace_def Let_def
          split: option.splits outcome.splits sum.splits if_splits)
next
  case (Post_start su i rt now)
  then show ?thesis
    by (auto simp: post_workspace_start_def update_status_rows
          split: option.splits outcome.splits)
next
  case (Post_stop su i rt now)
  then show ?thesis
    by (auto simp: post_workspace_stop_def update_status_rows
          split: option.splits outcome.splits)
qed

lemma handle_statuses:
  assumes "\<forall>r\<in>set (workspaces db). status r = Some ''running'' \<or> status r = Some ''stopped''"
  shows "\<forall>r\<in>set (workspaces (fst (handle db rq))).
           status r = Some ''running'' \<or> status r = Some ''stopped''"
  using handle_rows [of db rq] assms by auto

lemma handle_containers:
  "prefix (map (\<lambda>r. (ws_id r, container_id r)) (workspaces db))
     (map (\<lambda>r. (ws_id r, container_id r)) (workspaces (fst (handle db rq))))"
proof -
  have m: "map (\<lambda>r. (ws_id r, container_id r))
          (map (\<lambda>r. if ws_id r = i then r\<lparr>status := Some st, updated_at := now\<rparr> else r) rs)
        = map (\<lambda>r. (ws_id r, container_id r)) rs" for i st now and rs :: "workspace list"
    by (induction rs) auto
  consider (same) "workspaces (fst (handle db rq)) = workspaces db"
    | (app) w where "workspaces (fst (handle db rq)) = workspaces db @ [w]"
    | (upd) i st now where "workspaces (fst (handle db rq))
          = map (\<lambda>r. if ws_id r = i then r\<lparr>status := Some st, updated_at := now\<rparr> else r)
              (workspaces db)"
    using handle_rows [of db rq] by blast
  then show ?thesis
  proof cases
    case same
    then show ?thesis by simp
  next
    case app
    then show ?thesis by simp
  next
    case upd
    show ?thesis unfolding upd m by simp
  qed
qed

text \<open>The routes keep the ids a primary key.\<close>

lemma updateWorkspaceStatus_ids:
  "map ws_id (workspaces (fst (updateWorkspaceStatus db i st expected now)))
     = map ws_id (workspaces db)"
  by (cases expected) (simp_all add: updateWorkspaceStatus_def update_where_pk)

lemma handle_pk:
  assumes "distinct (map ws_id (workspaces db))"
  shows "distinct (map ws_id (workspaces (fst (handle db rq))))"
proof (cases rq)
  case (Post_workspaces su nm url rt now)
  then show ?thesis
    using assms createWorkspace_pk [OF assms]
    by (auto simp: post_workspaces_def split: option.splits outcome.splits sum.splits if_splits)
next
  case (Post_start su i rt now)
  have "map ws_id (workspaces (fst (post_workspace_start db su i rt now)))
      = map ws_id (workspaces db)"
    by (simp add: post_workspace_start_def updateWorkspaceStatus_ids
          split: option.splits outcome.splits)
  with Post_start assms show ?thesis by simp
next
  case (Post_stop su i rt now)
  have "map ws_id (workspaces (fst (post_workspace_stop db su i rt now)))
      = map ws_id (workspaces db)"
    by (simp add: post_workspace_stop_def updateWorkspaceStatus_ids
          split: option.splits outcome.splits)
  with Post_stop assms show ?thesis by simp
qed

lemma serve_pk:
  "distinct (map ws_id (workspaces db)) \<Longrightarrow> distinct (map ws_id (workspaces (fst (serve db rqs))))"
proof (induction rqs arbitrary: db)
  case Nil
  then show ?case by simp
next
  case (Cons rq rqs)
  obtain db' out where h: "handle db rq = (db', out)" by (cases "handle db rq")
  have eq: "fst (serve db (rq # rqs)) = fst (serve db' rqs)"
    using h by (simp split: prod.splits)
  have "distinct (map ws_id (workspaces db'))"
    using handle_pk [OF Cons.prems, of rq] h by simp
  then show ?case unfolding eq by (rule Cons.IH)
qed

text \<open>
  Claim C3, as amended. From a table in which every status is \<open>running\<close> or \<open>stopped\<close> (the
  empty table is one), after any sequence of create, start and stop requests every status
  is \<open>running\<close> or \<open>stopped\<close>, and the workspaces that were there keep their ids and their
  \<open>container_id\<close>, new ones being added after them: start and stop write the status only.
\<close>

theorem serve_statuses:
  assumes "\<forall>r\<in>set (workspaces db). status r = Some ''running'' \<or> status r = Some ''stopped''"
  shows "(\<forall>r\<in>set (workspaces (fst (serve db rqs))).
            status r = Some ''running'' \<or> status r = Some ''stopped'')
       \<and> prefix (map (\<lambda>r. (ws_id r, container_id r)) (workspaces db))
           (map (\<lambda>r. (ws_id r, container_id r)) (workspaces (fst (serve db rqs))))"
  using assms
proof (induction rqs arbitrary: db)
  case Nil
  then show ?case by simp
next
  case (Cons rq rqs)
  obtain db' out where h: "handle db rq = (db', out)" by (cases "handle db rq")
  have st: "\<forall>r\<in>set (workspaces db'). status r = Some ''running'' \<or> status r = Some ''stopped''"
    using handle_statuses [OF Cons.prems, of rq] h by simp
  have pre: "prefix (map (\<lambda>r. (ws_id r, container_id r)) (workspaces db))
     (map (\<lambda>r. (ws_id r, container_id r)) (workspaces db'))"
    using handle_containers [of db rq] h by simp
  have eq: "fst (serve db (rq # rqs)) = fst (serve db' rqs)"
    using h by (simp split: prod.splits)
  show ?case
    unfolding eq using Cons.IH [OF st] pre by (auto intro: prefix_order.trans)
qed

theorem serve_statuses_witness:
  "map status (workspaces (example_db (Some ''alice'') ''running'' (Some ''c1''))) = [Some ''running'']
   \<and> map (\<lambda>r. (ws_id r, container_id r, status r))
       (workspaces (fst (serve (example_db (Some ''alice'') ''running'' (Some ''c1''))
        [Post_stop (Some ''alice'') 5 (Resolved ()) 2,
         Post_workspaces (Some ''bob'') (Some ''proj-b'') (Some ''https://git/y'')
           (Resolved (Some ''c2'')) 3,
         Post_start (Some ''alice'') 5 (Rejected ''no such container'') 4])))
       = [(5, Some ''c1'', Some ''stopped''), (6, Some ''c2'', Some ''running'')]
   \<and> prefix (map (\<lambda>r. (ws_id r, container_id r))
         (workspaces (example_db (Some ''alice'') ''running'' (Some ''c1''))))
       (map (\<lambda>r. (ws_id r, container_id r))
         (workspaces (fst (serve (example_db (Some ''alice'') ''running'' (Some ''c1''))
        [Post_stop (Some ''alice'') 5 (Resolved ()) 2,
         Post_workspaces (Some ''bob'') (Some ''proj-b'') (Some ''https://git/y'')
           (Resolved (Some ''c2'')) 3,
         Post_start (Some ''alice'') 5 (Rejected ''no such container'') 4]))))"
proof -
  have h: "\<forall>r\<in>set (workspaces (example_db (Some ''alice'') ''running'' (Some ''c1''))).
      status r = Some ''running'' \<or> status r = Some ''stopped''"
    by (simp add: example_db_def example_workspace_def)
  have run: "map (\<lambda>r. (ws_id r, container_id r, status r))
       (workspaces (fst (serve (example_db (Some ''alice'') ''running'' (Some ''c1''))
        [Post_stop (Some ''alice'') 5 (Resolved ()) 2,
         Post_workspaces (Some ''bob'') (Some ''proj-b'') (Some ''https://git/y'')
           (Resolved (Some ''c2'')) 3,
         Post_start (Some ''alice'') 5 (Rejected ''no such container'') 4])))
       = [(5, Some ''c1'', Some ''stopped''), (6, Some ''c2'', Some ''running'')]"
    by (simp add: post_workspaces_def post_workspace_stop_def post_workspace_start_def
          createWorkspace_def deserializeUser_def getWorkspace_def updateWorkspaceStatus_def
          update_where_def example_db_def example_workspace_def valid_name_def fk_ok_def)
  have h': "map status (workspaces (example_db (Some ''alice'') ''running'' (Some ''c1'')))
      = [Some ''running'']"
    by (simp add: example_db_def example_workspace_def)
  show ?thesis
    using h' run serve_statuses [OF h, of "[Post_stop (Some ''alice'') 5 (Resolved ()) 2,
         Post_workspaces (Some ''bob'') (Some ''proj-b'') (Some ''https://git/y'')
           (Resolved (Some ''c2'')) 3,
         Post_start (Some ''alice'') 5 (Rejected ''no such container'') 4]"]
    by blast
qed

text \<open>
  Claim C3 as stated fails: a workspace created with the container \<open>c1\<close> and then stopped
  has a \<open>container_id\<close> that is not \<open>NULL\<close> and the status \<open>stopped\<close>.
\<close>

theorem stopped_with_container_counterexample:
  "map (\<lambda>r. (container_id r, status r)) (workspaces (fst (serve fresh_db
        [Post_workspaces (Some ''alice'') (Some ''proj-a'') (Some ''https://git/x'')
           (Resolved (Some ''c1'')) 1,
         Post_stop (Some ''alice'') 1 (Resolved ()) 2])))
   = [(Some ''c1'', Some ''stopped'')]"
  by (simp add: post_workspaces_def post_workspace_stop_def
        createWorkspace_def deserializeUser_def getWorkspace_def updateWorkspaceStatus_def
        update_where_def fresh_db_def valid_name_def fk_ok_def)



section \<open>The OAuth flow\<close>

subsection \<open>Starting the flow\<close>



text \<open>
  The workspaces server's route has no reply of its own for a failed write: with a store
  that fails, the redirect would be sent all the same. The store it is configured with
  does not fail.
\<close>

lemma get_auth_github_failing_store:
  "store (s\<lparr>oauthState := Str state\<rparr>) = Rejected msg \<Longrightarrow>
   get_auth_github store s state
     = (s\<lparr>oauthState := Str state\<rparr>,
        [Session_save_failed msg, Reply (Provider_redirect [''user:email''] state)])"
  by (simp add: get_auth_github_def Let_def)

subsection \<open>The callback\<close>

lemma strict_eq_Undefined: "strict_eq q Undefined \<longleftrightarrow> q = Undefined"
  by (cases q) simp_all

text \<open>
  Claim C4, as amended. When the \<open>state\<close> of a callback request differs from the nonce
  in the session, both callback routes answer 403 and do nothing else: the strategy and
  \<open>req.logIn\<close> are not reached, whatever they would have returned, so the session's user is
  as before, and the session still holds the nonce. The nonce is deleted only when the
  comparison succeeds (and, in the shared \<open>handleCallback\<close>, a nonce is there).
\<close>

theorem callback_state_mismatch:
  "(\<not> strict_eq q (oauthState s) \<longrightarrow>
      (\<exists>text. handleCallback d s q auth logIn save = (s, [Reply (Send 403 text)]))
      \<and> github_callback s q auth logIn
          = (s, [Reply (Send 403 ''Invalid state parameter. Please try logging in again.'')])
      \<and> passport_user (fst (handleCallback d s q auth logIn save)) = passport_user s
      \<and> passport_user (fst (github_callback s q auth logIn)) = passport_user s
      \<and> oauthState (fst (handleCallback d s q auth logIn save)) = oauthState s
      \<and> oauthState (fst (github_callback s q auth logIn)) = oauthState s)
   \<and> (strict_eq q (oauthState s) \<longrightarrow>
        github_callback_verify s q = (s\<lparr>oauthState := Undefined\<rparr>, None))
   \<and> (strict_eq q (oauthState s) \<and> truthy (oauthState s) \<longrightarrow>
        handleCallback_verify s q = (s\<lparr>oauthState := Undefined\<rparr>, None))"
  by (simp add: handleCallback_def handleCallback_verify_def github_callback_def
        github_callback_verify_def)

theorem callback_state_mismatch_witness:
  "\<not> strict_eq (Str ''attacker-value'') (oauthState example_session)
   \<and> github_callback example_session (Str ''attacker-value'') (Auth_user ''mallory'') example_logIn
       = (example_session, [Reply (Send 403 ''Invalid state parameter. Please try logging in again.'')])
   \<and> passport_user (fst (handleCallback Undefined example_session (Str ''attacker-value'')
         (Auth_user ''mallory'') example_logIn (Resolved ()))) = None
   \<and> strict_eq (Str ''legit-value'') (oauthState example_session)
   \<and> truthy (oauthState example_session)
   \<and> handleCallback_verify example_session (Str ''legit-value'')
       = (example_session\<lparr>oauthState := Undefined\<rparr>, None)
   \<and> github_callback_verify example_session (Str ''legit-value'')
       = (example_session\<lparr>oauthState := Undefined\<rparr>, None)"
proof -
  have h: "\<not> strict_eq (Str ''attacker-value'') (oauthState example_session)"
    by (simp add: example_session_def)
  have m: "strict_eq (Str ''legit-value'') (oauthState example_session)"
    by (simp add: example_session_def)
  have t: "truthy (oauthState example_session)"
    by (simp add: example_session_def)
  have u: "passport_user example_session = None"
    by (simp add: example_session_def)
  note bad = callback_state_mismatch [where q = "Str ''attacker-value''" and s = example_session
      and d = Undefined and auth = "Auth_user ''mallory''" and logIn = example_logIn
      and save = "Resolved ()"]
  note good = callback_state_mismatch [where q = "Str ''legit-value''" and s = example_session
      and d = Undefined and auth = "Auth_user ''mallory''" and logIn = example_logIn
      and save = "Resolved ()"]
  show ?thesis
    using h m t bad good unfolding u by blast
qed

text \<open>
  Claim C4 as stated fails: after the callback with \<open>state=attacker-value\<close> on a session
  holding \<open>legit-value\<close>, the session still holds \<open>legit-value\<close>, in both routes.
\<close>

theorem callback_nonce_kept_counterexample:
  "oauthState (fst (handleCallback Undefined example_session (Str ''attacker-value'')
      (Auth_user ''mallory'') example_logIn (Resolved ()))) = Str ''legit-value''
   \<and> oauthState (fst (github_callback example_session (Str ''attacker-value'')
      (Auth_user ''mallory'') example_logIn)) = Str ''legit-value''"
  by (simp add: handleCallback_def handleCallback_verify_def github_callback_def
        github_callback_verify_def example_session_def)

text \<open>
  Claim C10. In the workspaces server's callback route, a request without \<open>state\<close> on a
  session without a nonce passes the check (\<open>undefined === undefined\<close>): the first middleware
  calls \<open>next()\<close>, and with a user from the provider the route goes on to \<open>req.logIn\<close> and
  its reply. The only rejection of that middleware is the state mismatch; on the same
  request the shared \<open>handleCallback\<close> answers 403 for the lost session.
\<close>

theorem github_callback_both_undefined:
  "github_callback_verify (s\<lparr>oauthState := Undefined\<rparr>) Undefined = (s\<lparr>oauthState := Undefined\<rparr>, None)
   \<and> github_callback (s\<lparr>oauthState := Undefined\<rparr>) Undefined (Auth_user u) logIn
       = (fst (logIn (s\<lparr>oauthState := Undefined\<rparr>) u),
          [Reply (case snd (logIn (s\<lparr>oauthState := Undefined\<rparr>) u) of
                    Resolved x \<Rightarrow> Redirect (Str ''/dashboard'')
                  | Rejected msg \<Rightarrow> Next_error msg)])
   \<and> (github_callback_verify s q = (s, Some (Send 403 ''Invalid state parameter. Please try logging in again.''))
        \<or> github_callback_verify s q = (s\<lparr>oauthState := Undefined\<rparr>, None) \<and> strict_eq q (oauthState s))
   \<and> handleCallback_verify (s\<lparr>oauthState := Undefined\<rparr>) Undefined
       = (s\<lparr>oauthState := Undefined\<rparr>,
          Some (Send 403 ''Session lost during authentication. Please try logging in again.''))"
  by (auto simp: github_callback_def github_callback_verify_def handleCallback_verify_def
        split: prod.splits outcome.splits)


end
